theory Spec2Isabelle
  imports Complex_Main
begin

section \<open>The merge and split handlers of \<open>server.js\<close>\<close>

text \<open>
  The theory embeds the two PDF handlers of \<open>src/server.js\<close>: \<open>/api/merge\<close>
  (lines 154-192) and \<open>/api/split\<close> (lines 195-287), together with the JavaScript
  string and number operations they use.

  Conventions of the embedding.
  \<^item> A loaded \<open>PDFDocument\<close> is the list of its pages; a page is an opaque value of
    type \<open>'p\<close>, and a copied page is the same value.
  \<^item> A JavaScript number that holds an integer or \<open>NaN\<close> is an \<open>int option\<close>, with
    \<open>None\<close> for \<open>NaN\<close>. Integers are exact: the handlers only compare them with a
    page count and add one, which IEEE doubles do exactly below \<open>2 ^ 53\<close>.
  \<^item> Strings are ASCII: \<open>trim\<close> and \<open>parseInt\<close> skip the six ASCII white space
    characters. The fields of a request body are strings or absent, as the multipart
    parser delivers them.
  \<^item> A thrown exception is the \<open>Inl\<close> of a sum (or \<open>Some\<close> error beside the state that
    the handler had reached, since files written before the throw stay on disk).
  \<^item> The directory \<open>downloads\<close> is a map from file names to contents. The
    \<open>Date.now()\<close> part of a generated file name is left out of the name. File system
    calls succeed; the upload directory and the removal of input files are not part
    of the model.
  \<^item> The content of a PDF file is the page list of the document object at the moment
    the handler calls \<open>save()\<close> on it. The byte format is outside the model, and so is
    what the library does while it serialises (with its default options pdf-lib puts
    one blank page into a document that has no page): a part \<^emph>\<open>with no page\<close> is a
    document into which the handler has copied no page.
\<close>

subsection \<open>JavaScript strings and numbers\<close>

definition isWhite :: "char \<Rightarrow> bool" where
  "isWhite c = (c \<in> set [CHR 0x09, CHR 0x0A, CHR 0x0B, CHR 0x0C, CHR 0x0D, CHR 0x20])"

text \<open>\<open>String.prototype.trim\<close>.\<close>

definition js_trim :: "string \<Rightarrow> string" where
  "js_trim s = rev (dropWhile isWhite (rev (dropWhile isWhite s)))"

text \<open>\<open>String.prototype.split\<close> with a one-character separator: the pieces between
  the separators, empty pieces included, so the result is never empty.\<close>

fun js_split :: "char \<Rightarrow> string \<Rightarrow> string list" where
  "js_split sep [] = [[]]"
| "js_split sep (c # cs) =
     (if c = sep then [] # js_split sep cs
      else (case js_split sep cs of
              [] \<Rightarrow> [[c]]
            | w # ws \<Rightarrow> (c # w) # ws))"

text \<open>The value of a character as a digit of the given radix (10 or 16).\<close>

definition digitVal :: "nat \<Rightarrow> char \<Rightarrow> nat option" where
  "digitVal radix c =
     (let n = of_char c :: nat;
          v = (if 48 \<le> n \<and> n \<le> 57 then Some (n - 48)
               else if 97 \<le> n \<and> n \<le> 102 then Some (n - 87)
               else if 65 \<le> n \<and> n \<le> 70 then Some (n - 55)
               else None)
      in case v of
           None \<Rightarrow> None
         | Some d \<Rightarrow> if d < radix then Some d else None)"

definition isDigit :: "nat \<Rightarrow> char \<Rightarrow> bool" where
  "isDigit radix c = (digitVal radix c \<noteq> None)"

definition digitsValue :: "nat \<Rightarrow> string \<Rightarrow> nat" where
  "digitsValue radix z =
     foldl (\<lambda>acc c. acc * radix + (case digitVal radix c of Some d \<Rightarrow> d | None \<Rightarrow> 0)) 0 z"

text \<open>
  \<open>parseInt(string)\<close> with no radix argument (ECMAScript 19.2.5): skip leading white
  space, read a sign, read a \<open>0x\<close> or \<open>0X\<close> prefix (radix 16, otherwise 10), take the
  longest prefix of digits; no digit gives \<open>NaN\<close>. The result \<open>-0\<close> is \<open>0\<close> here: the
  handlers subtract one from it or compare it, where the two agree.
\<close>

definition parseInt :: "string \<Rightarrow> int option" where
  "parseInt s =
     (let s0 = dropWhile isWhite s;
          sign = (if take 1 s0 = ''-'' then - 1 else 1 :: int);
          s1 = (if take 1 s0 = ''+'' \<or> take 1 s0 = ''-'' then drop 1 s0 else s0);
          hex = (take 2 s1 = ''0x'' \<or> take 2 s1 = ''0X'');
          radix = (if hex then 16 else 10 :: nat);
          s2 = (if hex then drop 2 s1 else s1);
          z = takeWhile (isDigit radix) s2
      in if z = [] then None else Some (sign * int (digitsValue radix z)))"

text \<open>\<open>x - 1\<close> on a number: \<open>NaN - 1\<close> is \<open>NaN\<close>.\<close>

definition js_minus1 :: "int option \<Rightarrow> int option" where
  "js_minus1 x = map_option (\<lambda>n. n - 1) x"

text \<open>\<open>p <= end\<close> where \<open>p\<close> is an integer and \<open>end\<close> may be \<open>NaN\<close>: false on \<open>NaN\<close>.\<close>

definition js_le :: "int \<Rightarrow> int option \<Rightarrow> bool" where
  "js_le p e = (case e of None \<Rightarrow> False | Some n \<Rightarrow> p \<le> n)"

text \<open>The truthiness of a request field: present and not the empty string.\<close>

definition truthy :: "string option \<Rightarrow> bool" where
  "truthy f = (case f of None \<Rightarrow> False | Some s \<Rightarrow> s \<noteq> [])"

definition str :: "string option \<Rightarrow> string" where
  "str f = (case f of None \<Rightarrow> [] | Some s \<Rightarrow> s)"

subsection \<open>Documents, files and responses\<close>

datatype error =
    TypeError    \<comment> \<open>thrown inside \<open>copyPages\<close> for an index that is no page\<close>
  | ParseError   \<comment> \<open>thrown by \<open>PDFDocument.load\<close> on bytes that are no PDF\<close>

text \<open>An uploaded file: bytes that load as a document with the given pages, or bytes
  that \<open>PDFDocument.load\<close> rejects.\<close>

datatype 'p upload = PdfFile "'p list" | NotPdf

definition load :: "'p upload \<Rightarrow> error + 'p list" where
  "load f = (case f of PdfFile pages \<Rightarrow> Inr pages | NotPdf \<Rightarrow> Inl ParseError)"

datatype name = SplitPart int | Merged | SplitFiles

datatype 'p artifact = Pdf "'p list" | Zip "(name \<times> 'p list) list"

record 'p world =
  downloads :: "name \<rightharpoonup> 'p artifact"

definition writeFile :: "name \<Rightarrow> 'p artifact \<Rightarrow> 'p world \<Rightarrow> 'p world" where
  "writeFile f a w = w\<lparr>downloads := (downloads w)(f \<mapsto> a)\<rparr>"

text \<open>The pages of a PDF file of \<open>downloads\<close>, as the archiver reads it. The handler
  only reads files that it has written, so the second case is never reached.\<close>

definition readPdf :: "'p world \<Rightarrow> name \<Rightarrow> 'p list" where
  "readPdf w f = (case downloads w f of Some (Pdf pages) \<Rightarrow> pages | _ \<Rightarrow> [])"

datatype response =
    Success name nat   \<comment> \<open>\<open>res.json({success: true, fileName, ...})\<close>; the number is the count in the message\<close>
  | Rejected string    \<comment> \<open>\<open>res.status(400).json({error})\<close>\<close>
  | Crashed error      \<comment> \<open>\<open>res.status(500).json({error: error.message})\<close>, from the catch block\<close>

subsection \<open>The page copier of pdf-lib\<close>

text \<open>
  \<open>copyPages(srcDoc, indices)\<close> belongs to the library pdf-lib, not to this
  repository. It reads \<open>srcDoc.getPages()[index]\<close> for each index in turn and
  dereferences the result, so an index that is not the index of a page throws a
  \<open>TypeError\<close>; otherwise it returns the copies in the order of the indices.
\<close>

fun copyPages :: "'p list \<Rightarrow> int list \<Rightarrow> error + 'p list" where
  "copyPages srcDoc [] = Inr []"
| "copyPages srcDoc (i # rest) =
     (if 0 \<le> i \<and> i < int (length srcDoc) then
        (case copyPages srcDoc rest of
           Inl e \<Rightarrow> Inl e
         | Inr pages \<Rightarrow> Inr (srcDoc ! nat i # pages))
      else Inl TypeError)"

text \<open>The loop body \<open>const [copiedPage] = await newPdf.copyPages(pdfDoc, [p]);
  newPdf.addPage(copiedPage)\<close>.\<close>

definition copyAndAdd :: "'p list \<Rightarrow> 'p list \<Rightarrow> int \<Rightarrow> error + 'p list" where
  "copyAndAdd newPdf pdfDoc p =
     (case copyPages pdfDoc [p] of
        Inl e \<Rightarrow> Inl e
      | Inr copied \<Rightarrow> Inr (newPdf @ take 1 copied))"

subsection \<open>The merge handler (lines 154-192)\<close>

text \<open>The loop over the uploaded files (lines 164-172).\<close>

fun mergeLoop :: "'p upload list \<Rightarrow> 'p list \<Rightarrow> error + 'p list" where
  "mergeLoop [] mergedPdf = Inr mergedPdf"
| "mergeLoop (file # rest) mergedPdf =
     (case load file of
        Inl e \<Rightarrow> Inl e
      | Inr pdf \<Rightarrow>
          (case copyPages pdf (map int [0..<length pdf]) of
             Inl e \<Rightarrow> Inl e
           | Inr copiedPages \<Rightarrow> mergeLoop rest (mergedPdf @ copiedPages)))"

text \<open>\<open>req.files\<close> is \<open>None\<close> when the request carries no file list.\<close>

definition mergeHandler :: "'p upload list option \<Rightarrow> 'p world \<Rightarrow> response \<times> 'p world" where
  "mergeHandler files w =
     (case files of
        None \<Rightarrow> (Rejected ''At least 2 files required for merging'', w)
      | Some fs \<Rightarrow>
          if length fs < 2 then (Rejected ''At least 2 files required for merging'', w)
          else (case mergeLoop fs [] of
                  Inl e \<Rightarrow> (Crashed e, w)
                | Inr mergedPdf \<Rightarrow> (Success Merged (length fs), writeFile Merged (Pdf mergedPdf) w)))"

subsection \<open>The split handler (lines 195-287)\<close>

record 'p splitRequest =
  splitOption :: "string option"
  pageRanges :: "string option"
  numParts :: "string option"
  reqFile :: "'p upload option"

text \<open>The loop of an interval token (lines 220-223); \<open>endIdx\<close> is the source's
  \<open>end\<close>, which may be \<open>NaN\<close>.\<close>

function rangeLoop :: "'p list \<Rightarrow> int \<Rightarrow> int option \<Rightarrow> int \<Rightarrow> 'p list \<Rightarrow> error + 'p list" where
  "rangeLoop pdfDoc p endIdx totalPages newPdf =
     (if js_le p endIdx \<and> p < totalPages then
        (case copyAndAdd newPdf pdfDoc p of
           Inl e \<Rightarrow> Inl e
         | Inr newPdf' \<Rightarrow> rangeLoop pdfDoc (p + 1) endIdx totalPages newPdf')
      else Inr newPdf)"
  by pat_completeness auto
termination
  by (relation "measure (\<lambda>(pdfDoc, p, endIdx, totalPages, newPdf). nat (totalPages - p))") auto

declare rangeLoop.simps [simp del]

text \<open>The document built for one token (lines 215-230). Destructuring
  \<open>[start, end]\<close> leaves a missing element \<open>undefined\<close>, which compares like \<open>NaN\<close>.\<close>

definition rangePart :: "'p list \<Rightarrow> int \<Rightarrow> string \<Rightarrow> error + 'p list" where
  "rangePart pdfDoc totalPages rangeStr =
     (if CHR ''-'' \<in> set rangeStr then
        (let ns = map (\<lambda>n. js_minus1 (parseInt (js_trim n))) (js_split CHR ''-'' rangeStr);
             start = (case ns of [] \<Rightarrow> None | s # _ \<Rightarrow> s);
             endIdx = (case ns of s # e # _ \<Rightarrow> e | _ \<Rightarrow> None)
         in case start of
              None \<Rightarrow> Inr []
            | Some p \<Rightarrow> rangeLoop pdfDoc p endIdx totalPages [])
      else
        (case js_minus1 (parseInt rangeStr) of
           None \<Rightarrow> Inr []
         | Some pageNum \<Rightarrow>
             if pageNum < totalPages then copyAndAdd [] pdfDoc pageNum else Inr []))"

text \<open>The loop over the tokens (lines 214-237). It returns the exception, if one was
  thrown, with the directory and the list \<open>outputFiles\<close> as they were at that point.\<close>

fun pagesLoop ::
  "'p list \<Rightarrow> int \<Rightarrow> string list \<Rightarrow> int \<Rightarrow> 'p world \<Rightarrow> name list \<Rightarrow> error option \<times> 'p world \<times> name list"
where
  "pagesLoop pdfDoc totalPages [] i w outputFiles = (None, w, outputFiles)"
| "pagesLoop pdfDoc totalPages (rangeStr # rest) i w outputFiles =
     (case rangePart pdfDoc totalPages rangeStr of
        Inl e \<Rightarrow> (Some e, w, outputFiles)
      | Inr newPdf \<Rightarrow>
          pagesLoop pdfDoc totalPages rest (i + 1)
            (writeFile (SplitPart (i + 1)) (Pdf newPdf) w) (outputFiles @ [SplitPart (i + 1)]))"

text \<open>The inner loop of the size branch (lines 248-251).\<close>

function sizeInner :: "'p list \<Rightarrow> int \<Rightarrow> int \<Rightarrow> 'p list \<Rightarrow> error + 'p list" where
  "sizeInner pdfDoc p endPage newPdf =
     (if p < endPage then
        (case copyAndAdd newPdf pdfDoc p of
           Inl e \<Rightarrow> Inl e
         | Inr newPdf' \<Rightarrow> sizeInner pdfDoc (p + 1) endPage newPdf')
      else Inr newPdf)"
  by pat_completeness auto
termination
  by (relation "measure (\<lambda>(pdfDoc, p, endPage, newPdf). nat (endPage - p))") auto

declare sizeInner.simps [simp del]

text \<open>The outer loop of the size branch (lines 243-258).\<close>

function sizeLoop ::
  "'p list \<Rightarrow> int \<Rightarrow> int \<Rightarrow> int \<Rightarrow> int \<Rightarrow> 'p world \<Rightarrow> name list \<Rightarrow> error option \<times> 'p world \<times> name list"
where
  "sizeLoop pdfDoc totalPages pagesPerPart parts i w outputFiles =
     (if i < parts then
        (let startPage = i * pagesPerPart;
             endPage = min (startPage + pagesPerPart) totalPages
         in case sizeInner pdfDoc startPage endPage [] of
              Inl e \<Rightarrow> (Some e, w, outputFiles)
            | Inr newPdf \<Rightarrow>
                sizeLoop pdfDoc totalPages pagesPerPart parts (i + 1)
                  (writeFile (SplitPart (i + 1)) (Pdf newPdf) w) (outputFiles @ [SplitPart (i + 1)]))
      else (None, w, outputFiles))"
  by pat_completeness auto
termination
  by (relation "measure (\<lambda>(pdfDoc, totalPages, pagesPerPart, parts, i, w, outputFiles). nat (parts - i))")
    auto

declare sizeLoop.simps [simp del]

text \<open>\<open>Math.ceil(totalPages / parts)\<close> for \<open>parts \<ge> 1\<close>. For \<open>parts < 1\<close> the
  JavaScript value is infinite, \<open>NaN\<close> or not positive, and it is never used,
  because the loop over the parts does not run.\<close>

definition ceilDiv :: "int \<Rightarrow> int \<Rightarrow> int" where
  "ceilDiv totalPages parts = - ((- totalPages) div parts)"

text \<open>The size branch (lines 240-258); \<open>parts\<close> is \<open>parseInt(numParts)\<close>, and the loop
  condition \<open>i < parts\<close> is false from the start when that is \<open>NaN\<close>.\<close>

definition sizeBranch ::
  "'p list \<Rightarrow> int \<Rightarrow> int option \<Rightarrow> 'p world \<Rightarrow> error option \<times> 'p world \<times> name list"
where
  "sizeBranch pdfDoc totalPages parts w =
     (case parts of
        None \<Rightarrow> (None, w, [])
      | Some n \<Rightarrow> sizeLoop pdfDoc totalPages (ceilDiv totalPages n) n 0 w [])"

text \<open>The dispatch on the mode (lines 208-259).\<close>

definition splitParts ::
  "'p splitRequest \<Rightarrow> 'p list \<Rightarrow> 'p world \<Rightarrow> error option \<times> 'p world \<times> name list"
where
  "splitParts req pdfDoc w =
     (let totalPages = int (length pdfDoc) in
      if splitOption req = Some ''pages'' \<and> truthy (pageRanges req) then
        pagesLoop pdfDoc totalPages (map js_trim (js_split CHR '','' (str (pageRanges req)))) 0 w []
      else if splitOption req = Some ''size'' \<and> truthy (numParts req) then
        sizeBranch pdfDoc totalPages (parseInt (str (numParts req))) w
      else (None, w, []))"

text \<open>The handler: the archive holds, under its name, each file of \<open>outputFiles\<close>.\<close>

definition splitHandler :: "'p splitRequest \<Rightarrow> 'p world \<Rightarrow> response \<times> 'p world" where
  "splitHandler req w =
     (case reqFile req of
        None \<Rightarrow> (Rejected ''No file uploaded'', w)
      | Some f \<Rightarrow>
          (case load f of
             Inl e \<Rightarrow> (Crashed e, w)
           | Inr pdfDoc \<Rightarrow>
               (case splitParts req pdfDoc w of
                  (Some e, w', outputFiles) \<Rightarrow> (Crashed e, w')
                | (None, w', outputFiles) \<Rightarrow>
                    (Success SplitFiles (length outputFiles),
                     writeFile SplitFiles (Zip (map (\<lambda>f. (f, readPdf w' f)) outputFiles)) w'))))"

section \<open>Notions for the statements\<close>

text \<open>
  The definitions of this section are not code of the handlers. They name what the
  properties below speak about: the indices that a loop visits, the files that a split
  leaves behind, the numbers written in a token.
\<close>

subsection \<open>Page groups\<close>

text \<open>The loop body run over a list of page indices in turn, stopping at the first
  exception: what the loops of the split handler do with the indices they visit.\<close>

fun copyEach :: "'p list \<Rightarrow> int list \<Rightarrow> 'p list \<Rightarrow> error + 'p list" where
  "copyEach pdfDoc [] newPdf = Inr newPdf"
| "copyEach pdfDoc (p # ps) newPdf =
     (case copyAndAdd newPdf pdfDoc p of
        Inl e \<Rightarrow> Inl e
      | Inr newPdf' \<Rightarrow> copyEach pdfDoc ps newPdf')"

text \<open>The indices for which the loop of an interval token runs its body: the loop
  head of lines 220-223 without the body, which changes none of its variables.\<close>

function rangeIndices :: "int \<Rightarrow> int option \<Rightarrow> int \<Rightarrow> int list" where
  "rangeIndices p endIdx totalPages =
     (if js_le p endIdx \<and> p < totalPages then p # rangeIndices (p + 1) endIdx totalPages else [])"
  by pat_completeness auto
termination
  by (relation "measure (\<lambda>(p, endIdx, totalPages). nat (totalPages - p))") auto

declare rangeIndices.simps [simp del]




subsection \<open>The files of a split\<close>




subsection \<open>The numbers of a token\<close>




subsection \<open>Range sets that cover the document\<close>



section \<open>Properties\<close>

subsection \<open>Merge validation\<close>

text \<open>
  Claim C8. A merge request that carries fewer than two source documents (none, or a
  list of length 0 or 1) is answered with the status-400 error whose message says that
  at least 2 files are required, and nothing is written: the directory is unchanged.
\<close>

theorem merge_needs_two_files:
  "(files = None \<or> (\<exists>fs. files = Some fs \<and> length fs < 2)) \<Longrightarrow>
   mergeHandler files w = (Rejected ''At least 2 files required for merging'', w)"
  by (auto simp: mergeHandler_def)

theorem merge_needs_two_files_witness:
  "mergeHandler (Some [PdfFile [1::nat, 2, 3]]) \<lparr>downloads = Map.empty\<rparr>
     = (Rejected ''At least 2 files required for merging'', \<lparr>downloads = Map.empty\<rparr>)"
  using merge_needs_two_files [of "Some [PdfFile [1::nat, 2, 3]]" "\<lparr>downloads = Map.empty\<rparr>"]
  by simp

subsection \<open>Resolving a token\<close>

lemma copyAndAdd_in_range:
  "0 \<le> p \<Longrightarrow> p < int (length pdfDoc) \<Longrightarrow> copyAndAdd newPdf pdfDoc p = Inr (newPdf @ [pdfDoc ! nat p])"
  by (simp add: copyAndAdd_def)


lemma copyPages_in_range:
  "\<forall>i \<in> set idxs. 0 \<le> i \<and> i < int (length srcDoc) \<Longrightarrow>
   copyPages srcDoc idxs = Inr (map (\<lambda>i. srcDoc ! nat i) idxs)"
  by (induction idxs) auto

lemma copyPages_all: "copyPages pdf (map int [0..<length pdf]) = Inr pdf"
proof -
  have "copyPages pdf (map int [0..<length pdf]) = Inr (map (\<lambda>i. pdf ! nat i) (map int [0..<length pdf]))"
    by (rule copyPages_in_range) auto
  also have "map (\<lambda>i. pdf ! nat i) (map int [0..<length pdf]) = map ((!) pdf) [0..<length pdf]"
    by simp
  finally show ?thesis by (simp add: map_nth)
qed

lemma copyEach_in_range:
  "\<forall>i \<in> set idxs. 0 \<le> i \<and> i < int (length pdfDoc) \<Longrightarrow>
   copyEach pdfDoc idxs newPdf = Inr (newPdf @ map (\<lambda>i. pdfDoc ! nat i) idxs)"
  by (induction idxs arbitrary: newPdf) (auto simp: copyAndAdd_in_range)

lemma rangeLoop_copyEach:
  "rangeLoop pdfDoc p endIdx totalPages newPdf = copyEach pdfDoc (rangeIndices p endIdx totalPages) newPdf"
proof (induction pdfDoc p endIdx totalPages newPdf rule: rangeLoop.induct)
  case (1 pdfDoc p endIdx totalPages newPdf)
  show ?case
  proof (cases "js_le p endIdx \<and> p < totalPages")
    case True
    then show ?thesis
      using 1 rangeLoop.simps [of pdfDoc p endIdx totalPages newPdf]
        rangeIndices.simps [of p endIdx totalPages]
      by (auto split: sum.splits)
  next
    case False
    then show ?thesis
      using rangeLoop.simps [of pdfDoc p endIdx totalPages newPdf]
        rangeIndices.simps [of p endIdx totalPages]
      by auto
  qed
qed


lemma rangeIndices_upto: "rangeIndices p (Some e) totalPages = [p..min e (totalPages - 1)]"
proof (induction p "Some e :: int option" totalPages rule: rangeIndices.induct)
  case (1 p totalPages)
  show ?case
  proof (cases "p \<le> e \<and> p < totalPages")
    case True
    then have "rangeIndices p (Some e) totalPages = p # [p + 1..min e (totalPages - 1)]"
      using 1 by (subst rangeIndices.simps) (simp add: js_le_def)
    also have "\<dots> = [p..min e (totalPages - 1)]"
      using True by (simp add: upto_rec1 [of p])
    finally show ?thesis .
  next
    case False
    then show ?thesis
      by (subst rangeIndices.simps) (auto simp: js_le_def)
  qed
qed

lemma filter_less_upto: "filter (\<lambda>i. i < t) [a..b] = [a..min b (t - 1)]"
proof (induction a b rule: upto.induct)
  case (1 i j)
  show ?case
  proof (cases "i \<le> j")
    case True
    note ij = this
    show ?thesis
    proof (cases "i < t")
      case True
      then show ?thesis using ij 1 by (simp add: upto_rec1 [of i])
    next
      case False
      then have "filter (\<lambda>i. i < t) [i..j] = []"
        by (auto simp: filter_empty_conv)
      then show ?thesis using False by simp
    qed
  next
    case False
    then show ?thesis by simp
  qed
qed

lemma map_pred_upto: "map (\<lambda>i. i - 1) [a..b] = [a - 1..b - 1]"
proof (induction a b rule: upto.induct)
  case (1 i j)
  then show ?case
    by (cases "i \<le> j") (simp_all add: upto_rec1 [of i] upto_rec1 [of "i - 1"])
qed

lemma concat_map_if:
  "concat (map (\<lambda>x. if P x then [f x] else []) xs) = map f (filter P xs)"
  by (induction xs) auto

lemma comprehension_upto:
  "[i - 1. i \<leftarrow> [a..b], i - 1 < t] = [a - 1..min (b - 1) (t - 1)]"
proof -
  have "[i - 1. i \<leftarrow> [a..b], i - 1 < t] = map (\<lambda>i. i - 1) (filter (\<lambda>i. i - 1 < t) [a..b])"
    by (rule concat_map_if)
  also have "\<dots> = filter (\<lambda>i. i < t) (map (\<lambda>i. i - 1) [a..b])"
    by (simp add: filter_map comp_def)
  finally show ?thesis by (simp add: map_pred_upto filter_less_upto)
qed


lemma rangePart_interval:
  assumes "CHR ''-'' \<in> set tok"
    and "map (\<lambda>n. parseInt (js_trim n)) (js_split CHR ''-'' tok) = s # e # others"
  shows "rangePart pdfDoc totalPages tok =
           (case s of None \<Rightarrow> Inr []
            | Some a \<Rightarrow> rangeLoop pdfDoc (a - 1) (js_minus1 e) totalPages [])"
proof -
  have "map (\<lambda>n. js_minus1 (parseInt (js_trim n))) (js_split CHR ''-'' tok)
          = map js_minus1 (map (\<lambda>n. parseInt (js_trim n)) (js_split CHR ''-'' tok))"
    by simp
  also have "\<dots> = js_minus1 s # js_minus1 e # map js_minus1 others"
    by (simp only: assms(2) list.map)
  finally show ?thesis
    using assms(1) by (simp add: rangePart_def js_minus1_def split: option.splits)
qed

text \<open>
  Claim C1. An interval token whose two numbers parse to \<open>a\<close> and \<open>b\<close> makes the loop
  visit exactly the 0-based indices \<open>[i - 1 for i in a..b if i - 1 < totalPages]\<close>: the
  part is built by copying these indices in turn. From page 1 on (\<open>1 \<le> a\<close>) the part
  is exactly the pages at these indices. Nothing checks \<open>a \<le> b\<close>: when \<open>b < a\<close> the list
  is empty and the part has no page.
\<close>

theorem interval_token_resolution:
  assumes "CHR ''-'' \<in> set tok"
    and "map (\<lambda>n. parseInt (js_trim n)) (js_split CHR ''-'' tok) = Some a # Some b # others"
  shows "rangeIndices (a - 1) (Some (b - 1)) totalPages = [i - 1. i \<leftarrow> [a..b], i - 1 < totalPages]
       \<and> rangePart pdfDoc totalPages tok
             = copyEach pdfDoc [i - 1. i \<leftarrow> [a..b], i - 1 < totalPages] []
       \<and> (1 \<le> a \<and> totalPages = int (length pdfDoc) \<longrightarrow>
            rangePart pdfDoc totalPages tok
              = Inr (map (\<lambda>i. pdfDoc ! nat i) [i - 1. i \<leftarrow> [a..b], i - 1 < totalPages]))
       \<and> (b < a \<longrightarrow>
            [i - 1. i \<leftarrow> [a..b], i - 1 < totalPages] = [] \<and> rangePart pdfDoc totalPages tok = Inr [])"
proof -
  let ?group = "[i - 1. i \<leftarrow> [a..b], i - 1 < totalPages]"
  have idx: "rangeIndices (a - 1) (Some (b - 1)) totalPages = ?group"
    by (simp only: rangeIndices_upto comprehension_upto)
  have part: "rangePart pdfDoc totalPages tok = copyEach pdfDoc ?group []"
    using rangePart_interval [OF assms, of pdfDoc totalPages]
    by (simp add: js_minus1_def rangeLoop_copyEach idx)
  have valid: "rangePart pdfDoc totalPages tok = Inr (map (\<lambda>i. pdfDoc ! nat i) ?group)"
    if "1 \<le> a" and "totalPages = int (length pdfDoc)"
  proof -
    have "\<forall>i \<in> set ?group. 0 \<le> i \<and> i < int (length pdfDoc)"
      using that by (auto simp: comprehension_upto)
    then show ?thesis
      by (simp only: part copyEach_in_range append_Nil)
  qed
  have empty: "?group = []" if "b < a"
    using that by (simp add: comprehension_upto)
  show ?thesis
    using idx part valid empty by simp
qed

theorem interval_token_resolution_witness:
  "CHR ''-'' \<in> set ''9-12''
   \<and> map (\<lambda>n. parseInt (js_trim n)) (js_split CHR ''-'' ''9-12'') = [Some 9, Some 12]
   \<and> rangePart [10, 11, 12, 13, 14, 15, 16, 17, 18, 19 :: nat] 10 ''9-12'' = Inr [18, 19]
   \<and> rangePart [10, 11, 12, 13, 14, 15, 16, 17, 18, 19 :: nat] 10 ''5-2'' = Inr []"
proof -
  have h1: "CHR ''-'' \<in> set ''9-12''" by simp
  have h2: "map (\<lambda>n. parseInt (js_trim n)) (js_split CHR ''-'' ''9-12'') = [Some 9, Some 12]"
    by code_simp
  have h3: "CHR ''-'' \<in> set ''5-2''" by simp
  have h4: "map (\<lambda>n. parseInt (js_trim n)) (js_split CHR ''-'' ''5-2'') = [Some 5, Some 2]"
    by code_simp
  have g: "[i - 1. i \<leftarrow> [9..12], i - 1 < (10::int)] = [8, 9]"
    by code_simp
  have "rangePart [10, 11, 12, 13, 14, 15, 16, 17, 18, 19 :: nat] 10 ''9-12'' = Inr [18, 19]"
    using interval_token_resolution [OF h1 h2, of 10 "[10, 11, 12, 13, 14, 15, 16, 17, 18, 19 :: nat]"]
    by (simp add: g copyAndAdd_def)
  moreover have "rangePart [10, 11, 12, 13, 14, 15, 16, 17, 18, 19 :: nat] 10 ''5-2'' = Inr []"
    using interval_token_resolution [OF h3 h4, of 10 "[10, 11, 12, 13, 14, 15, 16, 17, 18, 19 :: nat]"]
    by simp
  ultimately show ?thesis using h1 h2 by simp
qed



text \<open>
  Claim C2. The single-page token \<open>0\<close> (a page number below 1) passes the only guard,
  \<open>pageNum < totalPages\<close>, with \<open>pageNum = -1\<close>; the copier throws, and the request
  ends in the status-500 response instead of an empty part.
\<close>

theorem single_page_zero_crashes:
  "CHR ''-'' \<notin> set ''0'' \<and> parseInt ''0'' = Some 0
   \<and> rangePart [10, 11, 12 :: nat] 3 ''0'' = Inl TypeError
   \<and> fst (splitHandler \<lparr>splitOption = Some ''pages'', pageRanges = Some ''0'', numParts = None,
                          reqFile = Some (PdfFile [10, 11, 12 :: nat])\<rparr> \<lparr>downloads = Map.empty\<rparr>)
       = Crashed TypeError"
  by code_simp

subsection \<open>The loops of the handlers\<close>

lemma mergeLoop_all:
  "mergeLoop (map PdfFile docs) mergedPdf = Inr (mergedPdf @ concat docs)"
  by (induction docs arbitrary: mergedPdf) (simp_all add: load_def copyPages_all)

lemma downloads_writeFile:
  "downloads (writeFile f a w) g = (if g = f then Some a else downloads w g)"
  by (simp add: writeFile_def)











lemma splitHandler_failure:
  assumes "reqFile req = Some (PdfFile pdfDoc)"
    and "splitParts req pdfDoc w = (Some e, w', outputFiles)"
  shows "splitHandler req w = (Crashed e, w')"
  using assms by (simp add: splitHandler_def load_def)

subsection \<open>Tokens\<close>










subsection \<open>Merge\<close>

text \<open>
  Claim C4. Merging two or more loadable documents writes exactly one file, under the
  name of the merged document, and it holds every page of every source: the sources in
  the order given, the pages of each in their own order. For two documents \<open>A\<close> and \<open>B\<close>
  the result is \<open>A\<close>'s pages followed by \<open>B\<close>'s, so it has \<open>a + b\<close> pages.
\<close>

theorem merge_concatenates:
  "(2 \<le> length docs \<longrightarrow>
      mergeHandler (Some (map PdfFile docs)) w
        = (Success Merged (length docs), writeFile Merged (Pdf (concat docs)) w))
   \<and> mergeHandler (Some [PdfFile A, PdfFile B]) w = (Success Merged 2, writeFile Merged (Pdf (A @ B)) w)
   \<and> length (A @ B) = length A + length B
   \<and> downloads (writeFile Merged (Pdf (concat docs)) w) Merged = Some (Pdf (concat docs))
   \<and> (\<forall>f. f \<noteq> Merged \<longrightarrow> downloads (writeFile Merged (Pdf (concat docs)) w) f = downloads w f)"
proof -
  have "mergeHandler (Some (map PdfFile docs)) w
          = (Success Merged (length docs), writeFile Merged (Pdf (concat docs)) w)"
    if "2 \<le> length docs"
    using that by (simp add: mergeHandler_def mergeLoop_all)
  moreover have "mergeHandler (Some [PdfFile A, PdfFile B]) w
                   = (Success Merged 2, writeFile Merged (Pdf (A @ B)) w)"
    using mergeLoop_all [of "[A, B]" "[]"] by (simp add: mergeHandler_def)
  ultimately show ?thesis by (simp add: downloads_writeFile)
qed

theorem merge_concatenates_witness:
  "2 \<le> length [[1, 2], [3], [4, 5 :: nat]]
   \<and> mergeHandler (Some [PdfFile [1, 2], PdfFile [3], PdfFile [4, 5 :: nat]]) \<lparr>downloads = Map.empty\<rparr>
       = (Success Merged 3, writeFile Merged (Pdf [1, 2, 3, 4, 5]) \<lparr>downloads = Map.empty\<rparr>)"
  using merge_concatenates [of "[[1, 2], [3], [4, 5 :: nat]]" "\<lparr>downloads = Map.empty\<rparr>" "[]" "[]"]
  by simp

subsection \<open>Split requests that select no part\<close>

text \<open>
  Claim C10. A split request with a loadable document whose mode is neither \<open>pages\<close>
  nor \<open>size\<close>, or whose mode is \<open>pages\<close> without a (non-empty) range expression, or
  whose mode is \<open>size\<close> without a (non-empty) part count or with a part count that parses
  to \<open>NaN\<close>, to 0 or below, is not rejected: the handler answers with success and
  writes an archive with no part file.
\<close>

theorem split_without_mode_is_empty_archive:
  assumes "reqFile req = Some (PdfFile pdfDoc)"
    and "(splitOption req \<noteq> Some ''pages'' \<and> splitOption req \<noteq> Some ''size'')
       \<or> (splitOption req = Some ''pages'' \<and> \<not> truthy (pageRanges req))
       \<or> (splitOption req = Some ''size'' \<and> \<not> truthy (numParts req))
       \<or> (splitOption req = Some ''size'' \<and>
            (case parseInt (str (numParts req)) of None \<Rightarrow> True | Some parts \<Rightarrow> parts \<le> 0))"
  shows "splitHandler req w = (Success SplitFiles 0, writeFile SplitFiles (Zip []) w)"
proof -
  have "sizeBranch pdfDoc (int (length pdfDoc)) (parseInt (str (numParts req))) w = (None, w, [])"
    if "case parseInt (str (numParts req)) of None \<Rightarrow> True | Some parts \<Rightarrow> parts \<le> 0"
    using that by (auto simp: sizeBranch_def sizeLoop.simps split: option.splits)
  then have "splitParts req pdfDoc w = (None, w, [])"
    using assms(2) by (auto simp: splitParts_def)
  then show ?thesis
    using assms(1) by (simp add: splitHandler_def load_def)
qed

theorem split_without_mode_is_empty_archive_witness:
  "splitHandler \<lparr>splitOption = Some ''size'', pageRanges = None, numParts = Some ''0'',
                 reqFile = Some (PdfFile [10, 11, 12 :: nat])\<rparr> \<lparr>downloads = Map.empty\<rparr>
     = (Success SplitFiles 0, writeFile SplitFiles (Zip []) \<lparr>downloads = Map.empty\<rparr>)
   \<and> splitHandler \<lparr>splitOption = Some ''pages'', pageRanges = None, numParts = None,
                 reqFile = Some (PdfFile [10, 11, 12 :: nat])\<rparr> \<lparr>downloads = Map.empty\<rparr>
     = (Success SplitFiles 0, writeFile SplitFiles (Zip []) \<lparr>downloads = Map.empty\<rparr>)
   \<and> splitHandler \<lparr>splitOption = Some ''chapters'', pageRanges = Some ''1-2'', numParts = Some ''2'',
                 reqFile = Some (PdfFile [10, 11, 12 :: nat])\<rparr> \<lparr>downloads = Map.empty\<rparr>
     = (Success SplitFiles 0, writeFile SplitFiles (Zip []) \<lparr>downloads = Map.empty\<rparr>)"
proof -
  have p0: "parseInt ''0'' = Some 0" by code_simp
  have "splitHandler \<lparr>splitOption = Some ''size'', pageRanges = None, numParts = Some ''0'',
                 reqFile = Some (PdfFile [10, 11, 12 :: nat])\<rparr> \<lparr>downloads = Map.empty\<rparr>
     = (Success SplitFiles 0, writeFile SplitFiles (Zip []) \<lparr>downloads = Map.empty\<rparr>)"
    by (rule split_without_mode_is_empty_archive [where pdfDoc = "[10, 11, 12]"])
      (simp_all add: str_def p0)
  moreover have "splitHandler \<lparr>splitOption = Some ''pages'', pageRanges = None, numParts = None,
                 reqFile = Some (PdfFile [10, 11, 12 :: nat])\<rparr> \<lparr>downloads = Map.empty\<rparr>
     = (Success SplitFiles 0, writeFile SplitFiles (Zip []) \<lparr>downloads = Map.empty\<rparr>)"
    by (rule split_without_mode_is_empty_archive [where pdfDoc = "[10, 11, 12]"])
      (simp_all add: truthy_def)
  moreover have "splitHandler \<lparr>splitOption = Some ''chapters'', pageRanges = Some ''1-2'', numParts = Some ''2'',
                 reqFile = Some (PdfFile [10, 11, 12 :: nat])\<rparr> \<lparr>downloads = Map.empty\<rparr>
     = (Success SplitFiles 0, writeFile SplitFiles (Zip []) \<lparr>downloads = Map.empty\<rparr>)"
    by (rule split_without_mode_is_empty_archive [where pdfDoc = "[10, 11, 12]"]) simp_all
  ultimately show ?thesis by simp
qed

subsection \<open>Split by range\<close>





subsection \<open>Split by size\<close>















subsection \<open>Page indices stay below the page count\<close>








subsection \<open>Split, then merge\<close>












subsection \<open>Requests that fail\<close>







end
